theory Spec2Isabelle
  imports Main "HOL-Library.Word"
begin

section \<open>The preprocessing state\<close>

text \<open>
  The program is the header \<^verbatim>\<open>arch/arm/mach-GM/include/mach/platform-GM8181/vmalloc.h\<close>.
  Its whole content, after the licence comment of lines 1 to 25, is

  \<^verbatim>\<open>#ifndef __GM_PLATFORM_VMALLOC_HEADER__\<close> (line 27)
  \<^verbatim>\<open>#define __GM_PLATFORM_VMALLOC_HEADER__\<close> (line 28)
  \<^verbatim>\<open>#ifndef VMALLOC_END\<close> (line 30)
  \<^verbatim>\<open>#define VMALLOC_END    0xe0000000\<close> (line 31)
  \<^verbatim>\<open>#endif\<close> (line 32)
  \<^verbatim>\<open>#endif /* __GM_PLATFORM_VMALLOC_HEADER__ */\<close> (line 34)

  A header is run by the C preprocessor, so the state it acts on is the state of the
  preprocessor: the table of object-like macros (a macro name mapped to its replacement
  list, a list of preprocessing tokens), the diagnostics issued so far, and the tokens of
  the text lines handed on to the rest of translation. A symbol is defined when the table
  has an entry for it, and the entry is what the symbol expands to.
\<close>

type_synonym token = string
type_synonym macro_name = string

datatype diagnostic = Redefined macro_name

record pp_state =
  macros :: "macro_name \<rightharpoonup> token list"
  diags :: "diagnostic list"
  text_out :: "token list"

section \<open>The directives the header uses\<close>

text \<open>
  \<^verbatim>\<open>#define name body\<close>: a name without a definition gets one. Defining a name again with
  the same replacement list is accepted in silence; with another replacement list the
  preprocessor reports the redefinition and the new definition replaces the old one.
\<close>

definition define_macro :: "macro_name \<Rightarrow> token list \<Rightarrow> pp_state \<Rightarrow> pp_state" where
  "define_macro n body s =
     (case macros s n of
        None \<Rightarrow> s\<lparr>macros := (macros s)(n \<mapsto> body)\<rparr>
      | Some old \<Rightarrow>
          if old = body then s
          else s\<lparr>macros := (macros s)(n \<mapsto> body), diags := diags s @ [Redefined n]\<rparr>)"

text \<open>
  \<^verbatim>\<open>#ifndef name\<close> ... \<^verbatim>\<open>#endif\<close>: the group between the two lines is processed when the
  name has no definition at the \<^verbatim>\<open>#ifndef\<close> line, and skipped as a whole otherwise.
\<close>

definition ifndef :: "macro_name \<Rightarrow> (pp_state \<Rightarrow> pp_state) \<Rightarrow> pp_state \<Rightarrow> pp_state" where
  "ifndef n grp s = (if macros s n = None then grp s else s)"

text \<open>A text line in a processed group hands its tokens on.\<close>

definition text_line :: "token list \<Rightarrow> pp_state \<Rightarrow> pp_state" where
  "text_line toks s = s\<lparr>text_out := text_out s @ toks\<rparr>"

section \<open>The header\<close>

definition GM_PLATFORM_VMALLOC_HEADER :: macro_name where
  "GM_PLATFORM_VMALLOC_HEADER = ''__GM_PLATFORM_VMALLOC_HEADER__''"

definition VMALLOC_END :: macro_name where
  "VMALLOC_END = ''VMALLOC_END''"

text \<open>The replacement list of line 31: the single token \<^verbatim>\<open>0xe0000000\<close>.\<close>

definition VMALLOC_END_default :: "token list" where
  "VMALLOC_END_default = [''0xe0000000'']"

text \<open>
  Lines 27 to 34, group by group. The guard macro of line 28 has an empty replacement
  list.
\<close>

definition vmalloc_h :: "pp_state \<Rightarrow> pp_state" where
  "vmalloc_h =
     ifndef GM_PLATFORM_VMALLOC_HEADER
       (\<lambda>s. ifndef VMALLOC_END (define_macro VMALLOC_END VMALLOC_END_default)
               (define_macro GM_PLATFORM_VMALLOC_HEADER [] s))"

section \<open>The header line by line\<close>

text \<open>
  The same file as the sequence of its lines, run by a reader of directive lines that
  keeps the stack of open conditionals (for each, whether its group is being processed).
  A comment counts as white space, so the comment of lines 1 to 25 and the empty lines
  26, 29 and 33 are text lines without tokens. The reader fails on an \<^verbatim>\<open>#endif\<close>
  that closes nothing and on a conditional left open at the end of the file.
\<close>

datatype line =
    Ifndef macro_name
  | Define macro_name "token list"
  | Endif
  | Text "token list"

datatype pp_error = Endif_without_if | Unterminated_conditional

fun processing :: "bool list \<Rightarrow> bool" where
  "processing [] = True"
| "processing (b # stack) = b"

fun preprocess :: "line list \<Rightarrow> bool list \<Rightarrow> pp_state \<Rightarrow> pp_error + pp_state" where
  "preprocess [] stack s = (if stack = [] then Inr s else Inl Unterminated_conditional)"
| "preprocess (Ifndef n # ls) stack s =
     preprocess ls ((processing stack \<and> macros s n = None) # stack) s"
| "preprocess (Define n body # ls) stack s =
     preprocess ls stack (if processing stack then define_macro n body s else s)"
| "preprocess (Endif # ls) [] s = Inl Endif_without_if"
| "preprocess (Endif # ls) (b # stack) s = preprocess ls stack s"
| "preprocess (Text toks # ls) stack s =
     preprocess ls stack (if processing stack then text_line toks s else s)"

definition vmalloc_h_lines :: "line list" where
  "vmalloc_h_lines =
     [Text [],
      Text [],
      Ifndef GM_PLATFORM_VMALLOC_HEADER,
      Define GM_PLATFORM_VMALLOC_HEADER [],
      Text [],
      Ifndef VMALLOC_END,
      Define VMALLOC_END VMALLOC_END_default,
      Endif,
      Text [],
      Endif]"

section \<open>The value of the default\<close>

text \<open>
  The token \<^verbatim>\<open>0xe0000000\<close> read as a C integer constant: the prefix \<^verbatim>\<open>0x\<close> or
  \<^verbatim>\<open>0X\<close>, then at least one hexadecimal digit, most significant first. Anything else
  is not a hexadecimal constant.
\<close>

definition hex_digit :: "char \<Rightarrow> nat option" where
  "hex_digit c =
     map_of
       [(CHR ''0'', 0), (CHR ''1'', 1), (CHR ''2'', 2), (CHR ''3'', 3), (CHR ''4'', 4),
        (CHR ''5'', 5), (CHR ''6'', 6), (CHR ''7'', 7), (CHR ''8'', 8), (CHR ''9'', 9),
        (CHR ''a'', 10), (CHR ''b'', 11), (CHR ''c'', 12), (CHR ''d'', 13), (CHR ''e'', 14),
        (CHR ''f'', 15),
        (CHR ''A'', 10), (CHR ''B'', 11), (CHR ''C'', 12), (CHR ''D'', 13), (CHR ''E'', 14),
        (CHR ''F'', 15)] c"

fun hex_digits :: "nat \<Rightarrow> string \<Rightarrow> nat option" where
  "hex_digits acc [] = Some acc"
| "hex_digits acc (c # cs) =
     (case hex_digit c of
        None \<Rightarrow> None
      | Some d \<Rightarrow> hex_digits (16 * acc + d) cs)"

fun hex_constant :: "token \<Rightarrow> nat option" where
  "hex_constant (z # x # d # ds) =
     (if z = CHR ''0'' \<and> (x = CHR ''x'' \<or> x = CHR ''X'') then hex_digits 0 (d # ds) else None)"
| "hex_constant _ = None"

section \<open>States used as concrete inputs\<close>

text \<open>Nothing defined yet: the start of a translation unit.\<close>

definition fresh :: pp_state where
  "fresh = \<lparr>macros = Map.empty, diags = [], text_out = []\<rparr>"

text \<open>An earlier header has chosen another end of the vmalloc area.\<close>

definition board_override :: pp_state where
  "board_override = \<lparr>macros = [VMALLOC_END \<mapsto> [''0xd0000000'']], diags = [], text_out = []\<rparr>"

text \<open>The guard name is taken, and \<^verbatim>\<open>VMALLOC_END\<close> is not defined.\<close>

definition guard_taken :: pp_state where
  "guard_taken =
     \<lparr>macros = [GM_PLATFORM_VMALLOC_HEADER \<mapsto> []], diags = [], text_out = []\<rparr>"

text \<open>An unrelated macro and some text before the header.\<close>

definition busy :: pp_state where
  "busy =
     \<lparr>macros = [''PAGE_OFFSET'' \<mapsto> [''0xc0000000'']], diags = [],
      text_out = [''int'', ''x'', '';'']\<rparr>"

section \<open>What the header does to a state\<close>

lemma names_distinct: "VMALLOC_END \<noteq> GM_PLATFORM_VMALLOC_HEADER"
  by (simp add: VMALLOC_END_def GM_PLATFORM_VMALLOC_HEADER_def)

text \<open>
  The three ways through the file: the guard is defined and everything is skipped; the
  guard is set and \<^verbatim>\<open>VMALLOC_END\<close>, defined already, is left alone; the guard
  is set and \<^verbatim>\<open>VMALLOC_END\<close> gets the default.
\<close>

lemma vmalloc_h_cases:
  "vmalloc_h s =
     (if macros s GM_PLATFORM_VMALLOC_HEADER \<noteq> None then s
      else if macros s VMALLOC_END \<noteq> None
        then s\<lparr>macros := (macros s)(GM_PLATFORM_VMALLOC_HEADER \<mapsto> [])\<rparr>
      else s\<lparr>macros := (macros s)(GM_PLATFORM_VMALLOC_HEADER \<mapsto> [],
                                     VMALLOC_END \<mapsto> VMALLOC_END_default)\<rparr>)"
  using names_distinct by (auto simp add: vmalloc_h_def ifndef_def define_macro_def)

lemma macros_vmalloc_h_guard:
  "macros (vmalloc_h s) GM_PLATFORM_VMALLOC_HEADER =
     (case macros s GM_PLATFORM_VMALLOC_HEADER of None \<Rightarrow> Some [] | Some b \<Rightarrow> Some b)"
  using names_distinct by (auto simp add: vmalloc_h_cases)

lemma macros_vmalloc_h_end:
  "macros (vmalloc_h s) VMALLOC_END =
     (case macros s VMALLOC_END of
        Some v \<Rightarrow> Some v
      | None \<Rightarrow>
          (case macros s GM_PLATFORM_VMALLOC_HEADER of
             None \<Rightarrow> Some VMALLOC_END_default
           | Some b \<Rightarrow> None))"
  using names_distinct by (auto simp add: vmalloc_h_cases)

lemma macros_vmalloc_h_other:
  "n \<noteq> VMALLOC_END \<Longrightarrow> n \<noteq> GM_PLATFORM_VMALLOC_HEADER \<Longrightarrow>
   macros (vmalloc_h s) n = macros s n"
  by (simp add: vmalloc_h_cases)

lemma diags_vmalloc_h: "diags (vmalloc_h s) = diags s"
  by (simp add: vmalloc_h_cases)

lemma text_out_vmalloc_h: "text_out (vmalloc_h s) = text_out s"
  by (simp add: vmalloc_h_cases)

lemma vmalloc_h_macros_only: "s\<lparr>macros := macros (vmalloc_h s)\<rparr> = vmalloc_h s"
  by (simp add: vmalloc_h_cases)

lemma macros_vmalloc_h_two:
  "(macros s)
     (VMALLOC_END := macros (vmalloc_h s) VMALLOC_END,
      GM_PLATFORM_VMALLOC_HEADER := macros (vmalloc_h s) GM_PLATFORM_VMALLOC_HEADER) =
   macros (vmalloc_h s)"
proof (rule ext)
  fix n
  show "((macros s)
      (VMALLOC_END := macros (vmalloc_h s) VMALLOC_END,
       GM_PLATFORM_VMALLOC_HEADER := macros (vmalloc_h s) GM_PLATFORM_VMALLOC_HEADER)) n =
    macros (vmalloc_h s) n"
    by (cases "n = GM_PLATFORM_VMALLOC_HEADER"; cases "n = VMALLOC_END")
      (simp_all add: macros_vmalloc_h_other)
qed

lemma vmalloc_h_twice: "vmalloc_h (vmalloc_h s) = vmalloc_h s"
  using names_distinct by (auto simp add: vmalloc_h_cases)

lemma vmalloc_h_many: "(vmalloc_h ^^ Suc k) s = vmalloc_h s"
proof (induction k)
  case 0
  show ?case by simp
next
  case (Suc k)
  have "(vmalloc_h ^^ Suc (Suc k)) s = vmalloc_h ((vmalloc_h ^^ Suc k) s)"
    by simp
  also have "\<dots> = vmalloc_h (vmalloc_h s)"
    using Suc.IH by simp
  finally show ?case
    by (simp only: vmalloc_h_twice)
qed

text \<open>The reader of lines and the nested groups compute the same state.\<close>

lemma preprocess_vmalloc_h: "preprocess vmalloc_h_lines [] s = Inr (vmalloc_h s)"
  using names_distinct
  by (cases "macros s GM_PLATFORM_VMALLOC_HEADER"; cases "macros s VMALLOC_END")
    (simp_all add: vmalloc_h_lines_def vmalloc_h_def ifndef_def define_macro_def
      text_line_def)

lemma preprocess_vmalloc_h_twice:
  "preprocess (vmalloc_h_lines @ vmalloc_h_lines) [] s = Inr (vmalloc_h s)"
  using names_distinct
  by (cases "macros s GM_PLATFORM_VMALLOC_HEADER"; cases "macros s VMALLOC_END")
    (simp_all add: vmalloc_h_lines_def vmalloc_h_def ifndef_def define_macro_def
      text_line_def)

lemma hex_constant_default: "hex_constant ''0xe0000000'' = Some 3758096384"
  by (simp add: hex_digit_def)

section \<open>The default\<close>

text \<open>
  C1. When neither \<^verbatim>\<open>VMALLOC_END\<close> nor the guard
  \<^verbatim>\<open>__GM_PLATFORM_VMALLOC_HEADER__\<close> is defined before the header, then after it
  \<^verbatim>\<open>VMALLOC_END\<close> is defined and its replacement list is exactly the one token
  \<^verbatim>\<open>0xe0000000\<close>.
\<close>

theorem default_installed:
  assumes "macros s VMALLOC_END = None"
    and "macros s GM_PLATFORM_VMALLOC_HEADER = None"
  shows "macros (vmalloc_h s) VMALLOC_END = Some [''0xe0000000'']"
  using assms by (simp add: macros_vmalloc_h_end VMALLOC_END_default_def)

theorem default_installed_witness:
  "macros fresh VMALLOC_END = None \<and> macros fresh GM_PLATFORM_VMALLOC_HEADER = None \<and>
   macros (vmalloc_h fresh) VMALLOC_END = Some [''0xe0000000'']"
proof -
  have a: "macros fresh VMALLOC_END = None"
    by (simp add: fresh_def)
  have b: "macros fresh GM_PLATFORM_VMALLOC_HEADER = None"
    by (simp add: fresh_def)
  from default_installed [OF a b] a b show ?thesis
    by simp
qed

section \<open>An earlier definition\<close>

text \<open>
  C2. When \<^verbatim>\<open>VMALLOC_END\<close> is defined to \<open>V\<close> before the header, it is still
  defined to \<open>V\<close> after it, whatever the guard: the earlier definition takes
  precedence over the default. For \<open>V\<close> some other value than the default, as the
  specification has it, the symbol therefore does not expand to \<^verbatim>\<open>0xe0000000\<close>.
\<close>

theorem override_wins:
  assumes "macros s VMALLOC_END = Some V"
  shows "macros (vmalloc_h s) VMALLOC_END = Some V \<and>
         (V \<noteq> [''0xe0000000''] \<longrightarrow>
            macros (vmalloc_h s) VMALLOC_END \<noteq> Some [''0xe0000000''])"
  using assms by (simp add: macros_vmalloc_h_end)

theorem override_wins_witness:
  "macros board_override VMALLOC_END = Some [''0xd0000000''] \<and>
   [''0xd0000000''] \<noteq> [''0xe0000000''] \<and>
   macros (vmalloc_h board_override) VMALLOC_END = Some [''0xd0000000''] \<and>
   macros (vmalloc_h board_override) VMALLOC_END \<noteq> Some [''0xe0000000'']"
proof -
  have a: "macros board_override VMALLOC_END = Some [''0xd0000000'']"
    by (simp add: board_override_def)
  have b: "[''0xd0000000''] \<noteq> [''0xe0000000'']"
    by simp
  from override_wins [OF a] a b show ?thesis
    by simp
qed

section \<open>Including the header again\<close>

text \<open>
  C3. Processing the header a second time leaves the state of the first time unchanged,
  and so does any further time; no diagnostic, so no report of a redefinition, is added
  by any number of inclusions; and the lines of the file twice in a row are read without
  error, to the same state as once.
\<close>

theorem inclusion_idempotent:
  "vmalloc_h (vmalloc_h s) = vmalloc_h s \<and>
   (vmalloc_h ^^ Suc k) s = vmalloc_h s \<and>
   diags ((vmalloc_h ^^ Suc k) s) = diags s \<and>
   preprocess (vmalloc_h_lines @ vmalloc_h_lines) [] s = Inr (vmalloc_h s)"
  by (simp only: vmalloc_h_twice vmalloc_h_many diags_vmalloc_h preprocess_vmalloc_h_twice)

section \<open>Is the macro defined afterwards\<close>

text \<open>
  C4, as it is written, says that \<^verbatim>\<open>VMALLOC_END\<close> is defined after the header from
  every state. From a state where the guard is defined and \<^verbatim>\<open>VMALLOC_END\<close> is not,
  the file is skipped and the symbol stays undefined.
\<close>

theorem defined_afterwards_counterexample:
  "macros (vmalloc_h guard_taken) VMALLOC_END = None"
  using names_distinct by (simp add: macros_vmalloc_h_end guard_taken_def)

text \<open>
  C4, amended. From every state in which the guard is not defined, or in which
  \<^verbatim>\<open>VMALLOC_END\<close> is defined already, \<^verbatim>\<open>VMALLOC_END\<close> is defined after the header.
\<close>

theorem defined_afterwards:
  assumes "macros s GM_PLATFORM_VMALLOC_HEADER = None \<or> macros s VMALLOC_END \<noteq> None"
  shows "macros (vmalloc_h s) VMALLOC_END \<noteq> None"
  using assms by (auto simp add: macros_vmalloc_h_end split: option.splits)

theorem defined_afterwards_witness:
  "(macros busy GM_PLATFORM_VMALLOC_HEADER = None \<or> macros busy VMALLOC_END \<noteq> None) \<and>
   macros (vmalloc_h busy) VMALLOC_END \<noteq> None"
proof -
  have a: "macros busy GM_PLATFORM_VMALLOC_HEADER = None \<or> macros busy VMALLOC_END \<noteq> None"
    by (simp add: busy_def GM_PLATFORM_VMALLOC_HEADER_def)
  from defined_afterwards [OF a] a show ?thesis
    by simp
qed

section \<open>What the header leaves alone\<close>

text \<open>
  C5. Every symbol other than \<^verbatim>\<open>VMALLOC_END\<close> and the guard has the same entry
  (defined or not, and the same replacement list) before and after the header; the
  header changes no part of the state but the macro table; and it hands on no token:
  read line by line, the file leaves the text handed on as it was.
\<close>

theorem only_two_symbols:
  assumes "n \<noteq> VMALLOC_END" and "n \<noteq> GM_PLATFORM_VMALLOC_HEADER"
  shows "macros (vmalloc_h s) n = macros s n \<and>
         vmalloc_h s = s\<lparr>macros := macros (vmalloc_h s)\<rparr> \<and>
         text_out (vmalloc_h s) = text_out s \<and>
         map_sum id text_out (preprocess vmalloc_h_lines [] s) = Inr (text_out s)"
  using assms
  by (simp add: macros_vmalloc_h_other text_out_vmalloc_h preprocess_vmalloc_h)
    (simp add: vmalloc_h_cases)

theorem only_two_symbols_witness:
  "''PAGE_OFFSET'' \<noteq> VMALLOC_END \<and> ''PAGE_OFFSET'' \<noteq> GM_PLATFORM_VMALLOC_HEADER \<and>
   macros (vmalloc_h busy) ''PAGE_OFFSET'' = Some [''0xc0000000''] \<and>
   text_out (vmalloc_h busy) = [''int'', ''x'', '';'']"
proof -
  have a: "''PAGE_OFFSET'' \<noteq> VMALLOC_END"
    by (simp add: VMALLOC_END_def)
  have b: "''PAGE_OFFSET'' \<noteq> GM_PLATFORM_VMALLOC_HEADER"
    by (simp add: GM_PLATFORM_VMALLOC_HEADER_def)
  from only_two_symbols [OF a b, of busy] a b show ?thesis
    by (simp add: busy_def)
qed

section \<open>No failure and no diagnostic\<close>

text \<open>
  C6. From every state the file is read to its end without an error of the reader, and
  the diagnostics afterwards are the diagnostics before: none is added. So when an
  earlier definition of \<^verbatim>\<open>VMALLOC_END\<close> stands in place of the default, it is kept
  and nothing is reported.
\<close>

theorem no_failure_no_diagnostic:
  "preprocess vmalloc_h_lines [] s = Inr (vmalloc_h s) \<and>
   diags (vmalloc_h s) = diags s \<and>
   (macros s VMALLOC_END = Some V \<longrightarrow>
      macros (vmalloc_h s) VMALLOC_END = Some V \<and> diags (vmalloc_h s) = diags s)"
  by (simp add: preprocess_vmalloc_h diags_vmalloc_h macros_vmalloc_h_end)

theorem no_failure_no_diagnostic_witness:
  "macros board_override VMALLOC_END = Some [''0xd0000000''] \<and>
   preprocess vmalloc_h_lines [] board_override = Inr (vmalloc_h board_override) \<and>
   macros (vmalloc_h board_override) VMALLOC_END = Some [''0xd0000000''] \<and>
   diags (vmalloc_h board_override) = []"
proof -
  have a: "macros board_override VMALLOC_END = Some [''0xd0000000'']"
    by (simp add: board_override_def)
  have d: "diags board_override = []"
    by (simp add: board_override_def)
  from no_failure_no_diagnostic [of board_override "[''0xd0000000'']"] a d show ?thesis
    by simp
qed

section \<open>The default as a number\<close>

text \<open>
  C7. The default \<^verbatim>\<open>0xe0000000\<close> is the number 3758096384, which is below
  \<open>2 ^ 32\<close>: a 32-bit unsigned integer holds it without truncation.
\<close>

theorem default_fits_32_bits:
  "map hex_constant VMALLOC_END_default = [Some 3758096384] \<and>
   (3758096384 :: nat) < 2 ^ 32 \<and>
   unat (word_of_nat 3758096384 :: 32 word) = 3758096384"
proof -
  have "map hex_constant VMALLOC_END_default = [Some 3758096384]"
    by (simp only: VMALLOC_END_default_def list.map hex_constant_default)
  then show ?thesis
    by simp
qed

section \<open>The guard defined beforehand\<close>

text \<open>
  C8. When the guard is defined before the header, the whole file is skipped: the state
  is unchanged, and \<^verbatim>\<open>VMALLOC_END\<close>, if it was not defined, is still not defined, so
  the default is not installed.
\<close>

theorem guard_defined_skips:
  assumes "macros s GM_PLATFORM_VMALLOC_HEADER \<noteq> None"
  shows "vmalloc_h s = s \<and>
         (macros s VMALLOC_END = None \<longrightarrow> macros (vmalloc_h s) VMALLOC_END = None)"
  using assms by (simp add: vmalloc_h_cases)

theorem guard_defined_skips_witness:
  "macros guard_taken GM_PLATFORM_VMALLOC_HEADER \<noteq> None \<and>
   macros guard_taken VMALLOC_END = None \<and>
   vmalloc_h guard_taken = guard_taken \<and>
   macros (vmalloc_h guard_taken) VMALLOC_END = None"
proof -
  have a: "macros guard_taken GM_PLATFORM_VMALLOC_HEADER \<noteq> None"
    by (simp add: guard_taken_def)
  have b: "macros guard_taken VMALLOC_END = None"
    using names_distinct by (simp add: guard_taken_def)
  from guard_defined_skips [OF a] a b show ?thesis
    by simp
qed

section \<open>What the outcome depends on\<close>

text \<open>
  C9. The header is a function of the state, and of the state it reads two entries only.
  For two states with the same entries for \<^verbatim>\<open>VMALLOC_END\<close> and for the guard, the
  entries of these two symbols are the same afterwards; a symbol with the same entry in
  both states has the same entry in both afterwards; and what the header does to one
  state is what it does to the other: the second state with the two entries set as in
  the first outcome.
\<close>

theorem outcome_depends_on_two_entries:
  assumes "macros s VMALLOC_END = macros t VMALLOC_END"
    and "macros s GM_PLATFORM_VMALLOC_HEADER = macros t GM_PLATFORM_VMALLOC_HEADER"
    and "macros s n = macros t n"
  shows "macros (vmalloc_h s) VMALLOC_END = macros (vmalloc_h t) VMALLOC_END \<and>
         macros (vmalloc_h s) GM_PLATFORM_VMALLOC_HEADER =
           macros (vmalloc_h t) GM_PLATFORM_VMALLOC_HEADER \<and>
         macros (vmalloc_h s) n = macros (vmalloc_h t) n \<and>
         vmalloc_h t =
           t\<lparr>macros := (macros t)
                (VMALLOC_END := macros (vmalloc_h s) VMALLOC_END,
                 GM_PLATFORM_VMALLOC_HEADER := macros (vmalloc_h s) GM_PLATFORM_VMALLOC_HEADER)\<rparr>"
proof -
  have e: "macros (vmalloc_h s) VMALLOC_END = macros (vmalloc_h t) VMALLOC_END"
    by (simp only: macros_vmalloc_h_end assms(1,2))
  have g: "macros (vmalloc_h s) GM_PLATFORM_VMALLOC_HEADER =
      macros (vmalloc_h t) GM_PLATFORM_VMALLOC_HEADER"
    by (simp only: macros_vmalloc_h_guard assms(2))
  have o: "macros (vmalloc_h s) n = macros (vmalloc_h t) n"
  proof (cases "n = VMALLOC_END \<or> n = GM_PLATFORM_VMALLOC_HEADER")
    case True
    with e g show ?thesis by auto
  next
    case False
    with assms(3) show ?thesis by (simp add: macros_vmalloc_h_other)
  qed
  have "vmalloc_h t = t\<lparr>macros := macros (vmalloc_h t)\<rparr>"
    by (rule vmalloc_h_macros_only [symmetric])
  also have "macros (vmalloc_h t) =
      (macros t)
        (VMALLOC_END := macros (vmalloc_h t) VMALLOC_END,
         GM_PLATFORM_VMALLOC_HEADER := macros (vmalloc_h t) GM_PLATFORM_VMALLOC_HEADER)"
    by (rule macros_vmalloc_h_two [symmetric])
  finally have u: "vmalloc_h t =
      t\<lparr>macros := (macros t)
           (VMALLOC_END := macros (vmalloc_h s) VMALLOC_END,
            GM_PLATFORM_VMALLOC_HEADER := macros (vmalloc_h s) GM_PLATFORM_VMALLOC_HEADER)\<rparr>"
    unfolding e g .
  show ?thesis
    by (intro conjI) (rule e g o u)+
qed

theorem outcome_depends_on_two_entries_witness:
  "macros fresh VMALLOC_END = macros busy VMALLOC_END \<and>
   macros fresh GM_PLATFORM_VMALLOC_HEADER = macros busy GM_PLATFORM_VMALLOC_HEADER \<and>
   macros fresh ''IO_BASE'' = macros busy ''IO_BASE'' \<and>
   fresh \<noteq> busy \<and>
   macros (vmalloc_h fresh) VMALLOC_END = macros (vmalloc_h busy) VMALLOC_END \<and>
   macros (vmalloc_h fresh) ''IO_BASE'' = macros (vmalloc_h busy) ''IO_BASE''"
proof -
  have a: "macros fresh VMALLOC_END = macros busy VMALLOC_END"
    by (simp add: fresh_def busy_def VMALLOC_END_def)
  have b: "macros fresh GM_PLATFORM_VMALLOC_HEADER = macros busy GM_PLATFORM_VMALLOC_HEADER"
    by (simp add: fresh_def busy_def GM_PLATFORM_VMALLOC_HEADER_def)
  have c: "macros fresh ''IO_BASE'' = macros busy ''IO_BASE''"
    by (simp add: fresh_def busy_def)
  have d: "fresh \<noteq> busy"
    by (simp add: fresh_def busy_def)
  note r = outcome_depends_on_two_entries [OF a b c]
  have e: "macros (vmalloc_h fresh) VMALLOC_END = macros (vmalloc_h busy) VMALLOC_END"
    by (rule conjunct1 [OF r])
  have o: "macros (vmalloc_h fresh) ''IO_BASE'' = macros (vmalloc_h busy) ''IO_BASE''"
    by (rule conjunct1 [OF conjunct2 [OF conjunct2 [OF r]]])
  show ?thesis
    by (intro conjI) (rule a b c d e o)+
qed

section \<open>Definitions are kept\<close>

text \<open>
  C10. A symbol defined before the header has the same replacement list after it, a
  \<^verbatim>\<open>VMALLOC_END\<close> defined beforehand included; and from every state, the empty
  macro table too, the set of defined symbols does not shrink, and it grows by the guard
  and \<^verbatim>\<open>VMALLOC_END\<close> at most.
\<close>

theorem definitions_preserved:
  "(macros s n = Some b \<longrightarrow> macros (vmalloc_h s) n = Some b) \<and>
   dom (macros s) \<subseteq> dom (macros (vmalloc_h s)) \<and>
   dom (macros (vmalloc_h s)) \<subseteq>
     dom (macros s) \<union> {GM_PLATFORM_VMALLOC_HEADER, VMALLOC_END}"
proof (intro conjI)
  show "macros s n = Some b \<longrightarrow> macros (vmalloc_h s) n = Some b"
    by (auto simp add: vmalloc_h_cases)
  show "dom (macros s) \<subseteq> dom (macros (vmalloc_h s))"
    by (auto simp add: vmalloc_h_cases)
  show "dom (macros (vmalloc_h s)) \<subseteq>
      dom (macros s) \<union> {GM_PLATFORM_VMALLOC_HEADER, VMALLOC_END}"
    by (auto simp add: vmalloc_h_cases split: if_splits)
qed

theorem definitions_preserved_witness:
  "macros busy ''PAGE_OFFSET'' = Some [''0xc0000000''] \<and>
   macros (vmalloc_h busy) ''PAGE_OFFSET'' = Some [''0xc0000000''] \<and>
   dom (macros busy) \<subseteq> dom (macros (vmalloc_h busy)) \<and>
   dom (macros (vmalloc_h busy)) \<subseteq>
     dom (macros busy) \<union> {GM_PLATFORM_VMALLOC_HEADER, VMALLOC_END}"
proof -
  have a: "macros busy ''PAGE_OFFSET'' = Some [''0xc0000000'']"
    by (simp add: busy_def)
  note r = definitions_preserved [of busy "''PAGE_OFFSET''" "[''0xc0000000'']"]
  have p: "macros (vmalloc_h busy) ''PAGE_OFFSET'' = Some [''0xc0000000'']"
    by (rule mp [OF conjunct1 [OF r] a])
  show ?thesis
    by (intro conjI) (rule a p conjunct1 [OF conjunct2 [OF r]] conjunct2 [OF conjunct2 [OF r]])+
qed

end
